theory Spec2Isabelle
  imports Main "HOL-Library.Multiset" "HOL-Library.List_Lexorder" "HOL-Library.Char_ord"
begin

section \<open>Task Manager backend (backend/app.py)\<close>

text \<open>
  A shallow embedding of the Flask application in \<^verbatim>\<open>backend/app.py\<close>.  The three MongoDB
  collections are lists of documents in insertion order, every route is a function from
  the database to a response and a new database, and everything the routes take from
  their environment is an explicit argument: the request body and headers, each reading
  of \<^verbatim>\<open>datetime.now()\<close>, the value of \<^verbatim>\<open>secrets.token_hex(32)\<close> and the
  \<^verbatim>\<open>_id\<close> that \<^verbatim>\<open>insert_one\<close> generates.
\<close>

subsection \<open>JSON values\<close>

datatype json =
    JNull
  | JBool bool
  | JNum int
  | JStr string
  | JArr "json list"
  | JObj "(string \<times> json) list"

text \<open>Python's truth value of a decoded JSON value, as tested by \<^verbatim>\<open>if not title\<close>.\<close>

fun truthy :: "json \<Rightarrow> bool" where
  "truthy JNull = False"
| "truthy (JBool b) = b"
| "truthy (JNum n) = (n \<noteq> 0)"
| "truthy (JStr s) = (s \<noteq> [])"
| "truthy (JArr xs) = (xs \<noteq> [])"
| "truthy (JObj kvs) = (kvs \<noteq> [])"

text \<open>
  \<^verbatim>\<open>request.json\<close> of the task routes is a JSON object: a dictionary from keys to values.
  \<^verbatim>\<open>data.get(k, d)\<close> is \<open>dict_get data k d\<close>; \<^verbatim>\<open>data.get(k)\<close> has the default
  \<^verbatim>\<open>None\<close>, which is also what a JSON \<^verbatim>\<open>null\<close> decodes to.
\<close>

type_synonym dict = "string \<rightharpoonup> json"

definition dict_get :: "dict \<Rightarrow> string \<Rightarrow> json \<Rightarrow> json" where
  "dict_get d k dflt = (case d k of None \<Rightarrow> dflt | Some v \<Rightarrow> v)"

text \<open>A response is the pair \<^verbatim>\<open>jsonify(body), status\<close> that a route returns.\<close>

type_synonym response = "json \<times> nat"

definition error_response :: "string \<Rightarrow> nat \<Rightarrow> response" where
  "error_response msg status = (JObj [(''error'', JStr msg)], status)"

definition message_response :: "string \<Rightarrow> nat \<Rightarrow> response" where
  "message_response msg status = (JObj [(''message'', JStr msg)], status)"

text \<open>What Flask answers when a route raises an exception that it does not catch.\<close>

definition internal_server_error :: response where
  "internal_server_error = (JStr ''Internal Server Error'', 500)"

subsection \<open>Python strings\<close>

text \<open>
  \<^verbatim>\<open>s.replace(old, new)\<close>: every occurrence of \<open>old\<close> in \<open>s\<close>, found from the left and not
  overlapping, is replaced by \<open>new\<close>.  With an empty \<open>old\<close> Python puts \<open>new\<close> before every
  character and at the end.
\<close>

function str_replace :: "string \<Rightarrow> string \<Rightarrow> string \<Rightarrow> string" where
  "str_replace old new [] = (if old = [] then new else [])"
| "str_replace old new (c # cs) =
     (if old = [] then new @ c # str_replace old new cs
      else if take (length old) (c # cs) = old
        then new @ str_replace old new (drop (length old) (c # cs))
      else c # str_replace old new cs)"
  by pat_completeness auto
termination
  by (relation "measure (\<lambda>(old, new, s). length s)") auto

subsection \<open>Documents\<close>

text \<open>
  Times are microseconds on the clock of \<^verbatim>\<open>datetime.now()\<close>; an \<^verbatim>\<open>ObjectId\<close> is a
  natural number.  A task document has the fields that \<^verbatim>\<open>create_task\<close> gives it; the
  fields that come from the request body hold whatever JSON value the client sent.  A
  collection returns a document as it was inserted: what the database server does to a
  value on its own (it keeps times to the millisecond) is not part of \<^verbatim>\<open>app.py\<close> and not
  of the model.  Requests are served one after the other.
\<close>

record user =
  user_oid :: nat
  username :: string
  email :: string
  password :: string
  user_created_at :: nat

record session =
  token :: string
  session_user_id :: string
  expires :: nat

record task =
  task_oid :: nat
  title :: json
  description :: json
  completed :: json
  user_id :: string
  due_date :: json
  due_time :: json
  category :: json
  created_at :: nat
  updated_at :: nat

record db =
  users_collection :: "user list"
  tasks_collection :: "task list"
  sessions_collection :: "session list"

definition empty_db :: db where
  "empty_db = \<lparr>users_collection = [], tasks_collection = [], sessions_collection = []\<rparr>"

subsection \<open>Collection operations of pymongo\<close>

text \<open>
  \<^verbatim>\<open>find_one\<close> returns the first document that matches, \<^verbatim>\<open>delete_one\<close> removes the first
  that matches, \<^verbatim>\<open>delete_many\<close> all that match, \<^verbatim>\<open>update_one\<close> changes the first that
  matches.
\<close>

definition find_one :: "('a \<Rightarrow> bool) \<Rightarrow> 'a list \<Rightarrow> 'a option" where
  "find_one P xs = List.find P xs"

fun delete_one :: "('a \<Rightarrow> bool) \<Rightarrow> 'a list \<Rightarrow> 'a list" where
  "delete_one P [] = []"
| "delete_one P (x # xs) = (if P x then xs else x # delete_one P xs)"

definition delete_many :: "('a \<Rightarrow> bool) \<Rightarrow> 'a list \<Rightarrow> 'a list" where
  "delete_many P xs = filter (\<lambda>x. \<not> P x) xs"

fun update_one :: "('a \<Rightarrow> bool) \<Rightarrow> ('a \<Rightarrow> 'a) \<Rightarrow> 'a list \<Rightarrow> 'a list" where
  "update_one P f [] = []"
| "update_one P f (x # xs) = (if P x then f x # xs else x # update_one P f xs)"

subsection \<open>Library functions\<close>

text \<open>
  The functions of other libraries that the routes call are parameters of the model:
  \<^verbatim>\<open>hashlib.sha256(b).hexdigest()\<close>, \<^verbatim>\<open>datetime.isoformat\<close>, the constructor
  \<^verbatim>\<open>ObjectId(task_id)\<close> (\<open>None\<close> where it raises \<^verbatim>\<open>InvalidId\<close>) and \<^verbatim>\<open>str\<close> of an
  \<^verbatim>\<open>ObjectId\<close>.
\<close>

record lib =
  sha256_hexdigest :: "string \<Rightarrow> string"
  isoformat :: "nat \<Rightarrow> string"
  ObjectId :: "string \<Rightarrow> nat option"
  str_oid :: "nat \<Rightarrow> string"

text \<open>
  \<^verbatim>\<open>hash_password(password)\<close> calls \<^verbatim>\<open>password.encode()\<close>, which a string has and no
  other JSON value: for those the call raises (\<open>None\<close>).
\<close>

fun hash_password :: "lib \<Rightarrow> json \<Rightarrow> string option" where
  "hash_password L (JStr pw) = Some (sha256_hexdigest L pw)"
| "hash_password L v = None"

text \<open>\<^verbatim>\<open>timedelta(hours=24)\<close> in microseconds.\<close>

definition hours_24 :: nat where
  "hours_24 = 86400000000"

subsection \<open>The authentication decorator\<close>

text \<open>
  \<^verbatim>\<open>verify_token(f)\<close>: \<open>hdr\<close> is \<^verbatim>\<open>request.headers.get('Authorization')\<close>, \<open>now\<close> the
  reading of the clock, and the protected route \<open>f\<close> receives \<^verbatim>\<open>request.user_id\<close>.
\<close>

definition verify_token ::
  "(string \<Rightarrow> db \<Rightarrow> response \<times> db) \<Rightarrow> string option \<Rightarrow> nat \<Rightarrow> db \<Rightarrow> response \<times> db" where
  "verify_token f hdr now d =
     (case hdr of
        None \<Rightarrow> (error_response ''No token provided'' 401, d)
      | Some h \<Rightarrow>
          if h = [] then (error_response ''No token provided'' 401, d)
          else
            let tok = str_replace ''Bearer '' [] h in
            (case find_one (\<lambda>s. token s = tok) (sessions_collection d) of
               None \<Rightarrow> (error_response ''Invalid token'' 401, d)
             | Some s \<Rightarrow>
                 if expires s < now
                 then (error_response ''Token expired'' 401,
                       d\<lparr>sessions_collection :=
                           delete_one (\<lambda>s. token s = tok) (sessions_collection d)\<rparr>)
                 else f (session_user_id s) d))"

subsection \<open>Authentication routes\<close>

text \<open>
  In the body of \<^verbatim>\<open>/api/register\<close> and \<^verbatim>\<open>/api/login\<close> the user name and the e-mail
  address are strings or absent (\<open>None\<close>): they go to the database as query values.  The
  password is any JSON value or absent.  \<^verbatim>\<open>not username\<close> holds of an absent and of an
  empty string, \<^verbatim>\<open>not password\<close> of an absent value and of one that Python takes as
  false.  An exception that \<^verbatim>\<open>hash_password\<close> raises is not caught by the routes.
\<close>

definition missing :: "string option \<Rightarrow> bool" where
  "missing x = (case x of None \<Rightarrow> True | Some s \<Rightarrow> s = [])"

definition falsy :: "json option \<Rightarrow> bool" where
  "falsy x = (case x of None \<Rightarrow> True | Some v \<Rightarrow> \<not> truthy v)"

definition register ::
  "lib \<Rightarrow> string option \<Rightarrow> json option \<Rightarrow> string option \<Rightarrow> nat \<Rightarrow> nat \<Rightarrow> db \<Rightarrow> response \<times> db" where
  "register L username' password' email' now new_id d =
     (if missing username' \<or> falsy password' \<or> missing email'
      then (error_response ''All fields are required'' 400, d)
      else
        let un = the username'; pw = the password'; em = the email' in
        if find_one (\<lambda>u. username u = un \<or> email u = em) (users_collection d) \<noteq> None
        then (error_response ''Username or email already exists'' 400, d)
        else
          (case hash_password L pw of
             None \<Rightarrow> (internal_server_error, d)
           | Some hashed \<Rightarrow>
               let u = \<lparr>user_oid = new_id, username = un, email = em,
                        password = hashed, user_created_at = now\<rparr> in
               if new_id \<in> set (map user_oid (users_collection d))
               then (internal_server_error, d)
               else (message_response ''User registered successfully'' 201,
                     d\<lparr>users_collection := users_collection d @ [u]\<rparr>)))"

text \<open>
  \<open>new_token\<close> is the value of \<^verbatim>\<open>secrets.token_hex(32)\<close>.  The collection has a unique
  index on \<^verbatim>\<open>token\<close>, so \<^verbatim>\<open>insert_one\<close> raises when the token is already there, after
  \<^verbatim>\<open>delete_many\<close> has run.
\<close>

definition login ::
  "lib \<Rightarrow> string option \<Rightarrow> json option \<Rightarrow> string \<Rightarrow> nat \<Rightarrow> db \<Rightarrow> response \<times> db" where
  "login L username' password' new_token now d =
     (if missing username' \<or> falsy password'
      then (error_response ''Username and password required'' 400, d)
      else
        let un = the username'; pw = the password' in
        (case find_one (\<lambda>u. username u = un) (users_collection d) of
           None \<Rightarrow> (error_response ''Invalid credentials'' 401, d)
         | Some u \<Rightarrow>
             (case hash_password L pw of
                None \<Rightarrow> (internal_server_error, d)
              | Some hashed \<Rightarrow>
                  if password u \<noteq> hashed
                  then (error_response ''Invalid credentials'' 401, d)
                  else
                    let ss = delete_many (\<lambda>s. session_user_id s = un) (sessions_collection d);
                        s = \<lparr>token = new_token, session_user_id = un,
                             expires = now + hours_24\<rparr>
                    in
                    if new_token \<in> set (map token ss)
                    then (internal_server_error, d\<lparr>sessions_collection := ss\<rparr>)
                    else ((JObj [(''token'', JStr new_token), (''username'', JStr un),
                                 (''email'', JStr (email u))], 200),
                          d\<lparr>sessions_collection := ss @ [s]\<rparr>))))"

definition verify :: "string \<Rightarrow> db \<Rightarrow> response \<times> db" where
  "verify uid d = ((JObj [(''valid'', JBool True), (''user_id'', JStr uid)], 200), d)"

definition logout :: "string option \<Rightarrow> string \<Rightarrow> db \<Rightarrow> response \<times> db" where
  "logout hdr uid d =
     (case hdr of
        None \<Rightarrow> (internal_server_error, d)
      | Some h \<Rightarrow>
          let tok = str_replace ''Bearer '' [] h in
          (message_response ''Logged out successfully'' 200,
           d\<lparr>sessions_collection := delete_one (\<lambda>s. token s = tok) (sessions_collection d)\<rparr>))"

subsection \<open>Task routes\<close>

text \<open>
  The JSON form of a task document: \<^verbatim>\<open>_id\<close> leaves, \<^verbatim>\<open>id\<close> is added at the end, the two
  times become ISO strings.
\<close>

definition task_json :: "lib \<Rightarrow> task \<Rightarrow> json" where
  "task_json L t =
     JObj [(''title'', title t),
           (''description'', description t),
           (''completed'', completed t),
           (''user_id'', JStr (user_id t)),
           (''due_date'', due_date t),
           (''due_time'', due_time t),
           (''category'', category t),
           (''created_at'', JStr (isoformat L (created_at t))),
           (''updated_at'', JStr (isoformat L (updated_at t))),
           (''id'', JStr (str_oid L (task_oid t)))]"

text \<open>The sort key \<^verbatim>\<open>lambda x: x.get('created_at', '')\<close> of a formatted task.\<close>

definition get_created_at :: "json \<Rightarrow> string" where
  "get_created_at x =
     (case x of
        JObj kvs \<Rightarrow> (case map_of kvs ''created_at'' of Some (JStr s) \<Rightarrow> s | _ \<Rightarrow> [])
      | _ \<Rightarrow> [])"

text \<open>
  \<^verbatim>\<open>xs.sort(key=k, reverse=True)\<close>: descending, and elements with equal keys keep their
  order.
\<close>

definition sort_reverse :: "('a \<Rightarrow> 'k::linorder) \<Rightarrow> 'a list \<Rightarrow> 'a list" where
  "sort_reverse k xs = rev (sort_key k (rev xs))"

definition get_tasks :: "lib \<Rightarrow> string \<Rightarrow> db \<Rightarrow> response \<times> db" where
  "get_tasks L uid d =
     (let ts = filter (\<lambda>t. user_id t = uid) (tasks_collection d);
          js = map (task_json L) ts
      in ((JArr (sort_reverse get_created_at js), 200), d))"

text \<open>
  \<open>now1\<close> and \<open>now2\<close> are the two readings of \<^verbatim>\<open>datetime.now()\<close> in the document that
  \<^verbatim>\<open>create_task\<close> builds, \<open>new_id\<close> the \<^verbatim>\<open>_id\<close> that \<^verbatim>\<open>insert_one\<close> generates.
\<close>

definition create_task :: "lib \<Rightarrow> dict \<Rightarrow> nat \<Rightarrow> nat \<Rightarrow> nat \<Rightarrow> string \<Rightarrow> db \<Rightarrow> response \<times> db" where
  "create_task L data now1 now2 new_id uid d =
     (let title' = dict_get data ''title'' JNull;
          description' = dict_get data ''description'' (JStr []);
          due_date' = dict_get data ''due_date'' JNull;
          due_time' = dict_get data ''due_time'' JNull;
          category' = dict_get data ''category'' (JStr ''general'')
      in
      if \<not> truthy title' then (error_response ''Title is required'' 400, d)
      else
        let t = \<lparr>task_oid = new_id, title = title', description = description',
                 completed = JBool False, user_id = uid, due_date = due_date',
                 due_time = due_time', category = category',
                 created_at = now1, updated_at = now2\<rparr>
        in
        if new_id \<in> set (map task_oid (tasks_collection d))
        then (internal_server_error, d)
        else ((task_json L t, 201), d\<lparr>tasks_collection := tasks_collection d @ [t]\<rparr>))"

text \<open>
  \<open>update_data\<close> is the dictionary that \<^verbatim>\<open>update_task\<close> builds from the body, without its
  \<^verbatim>\<open>updated_at\<close> entry; \<open>set_fields\<close> is \<^verbatim>\<open>$set\<close> of that dictionary and of
  \<^verbatim>\<open>updated_at\<close> on a task document.
\<close>

definition update_data :: "dict \<Rightarrow> dict" where
  "update_data data =
     (\<lambda>k. if k = ''title'' \<or> k = ''description'' \<or> k = ''completed'' \<or>
              k = ''due_date'' \<or> k = ''due_time'' \<or> k = ''category''
           then data k else None)"

definition set_fields :: "dict \<Rightarrow> nat \<Rightarrow> task \<Rightarrow> task" where
  "set_fields upd now t =
     t\<lparr>updated_at := now,
       title := dict_get upd ''title'' (title t),
       description := dict_get upd ''description'' (description t),
       completed := dict_get upd ''completed'' (completed t),
       due_date := dict_get upd ''due_date'' (due_date t),
       due_time := dict_get upd ''due_time'' (due_time t),
       category := dict_get upd ''category'' (category t)\<rparr>"

definition update_task :: "lib \<Rightarrow> string \<Rightarrow> dict \<Rightarrow> nat \<Rightarrow> string \<Rightarrow> db \<Rightarrow> response \<times> db" where
  "update_task L task_id data now uid d =
     (case ObjectId L task_id of
        None \<Rightarrow> (error_response ''Invalid task ID'' 400, d)
      | Some oid \<Rightarrow>
          (case find_one (\<lambda>t. task_oid t = oid \<and> user_id t = uid) (tasks_collection d) of
             None \<Rightarrow> (error_response ''Task not found'' 404, d)
           | Some t \<Rightarrow>
               let d' = d\<lparr>tasks_collection :=
                           update_one (\<lambda>t. task_oid t = oid)
                             (set_fields (update_data data) now) (tasks_collection d)\<rparr>
               in
               (case find_one (\<lambda>t. task_oid t = oid) (tasks_collection d') of
                  None \<Rightarrow> (error_response ''Invalid task ID'' 400, d')
                | Some updated_task \<Rightarrow> ((task_json L updated_task, 200), d'))))"

definition delete_task :: "lib \<Rightarrow> string \<Rightarrow> string \<Rightarrow> db \<Rightarrow> response \<times> db" where
  "delete_task L task_id uid d =
     (case ObjectId L task_id of
        None \<Rightarrow> (error_response ''Invalid task ID'' 400, d)
      | Some oid \<Rightarrow>
          if find_one (\<lambda>t. task_oid t = oid \<and> user_id t = uid) (tasks_collection d) = None
          then (error_response ''Task not found'' 404, d)
          else (message_response ''Task deleted successfully'' 200,
                d\<lparr>tasks_collection :=
                    delete_one (\<lambda>t. task_oid t = oid \<and> user_id t = uid) (tasks_collection d)\<rparr>))"

subsection \<open>The application\<close>

text \<open>
  A request names its route and carries what the route takes from the client and from the
  environment.  \<open>handle\<close> is the routing table of the application, \<open>run\<close> serves a list
  of requests one after the other.
\<close>

datatype request =
    Register "string option" "json option" "string option" nat nat
  | Login "string option" "json option" string nat
  | Verify "string option" nat
  | Logout "string option" nat
  | GetTasks "string option" nat
  | CreateTask "string option" nat dict nat nat nat
  | UpdateTask "string option" nat string dict nat
  | DeleteTask "string option" nat string

fun handle :: "lib \<Rightarrow> request \<Rightarrow> db \<Rightarrow> response \<times> db" where
  "handle L (Register un pw em now new_id) d = register L un pw em now new_id d"
| "handle L (Login un pw new_token now) d = login L un pw new_token now d"
| "handle L (Verify hdr now) d = verify_token verify hdr now d"
| "handle L (Logout hdr now) d = verify_token (logout hdr) hdr now d"
| "handle L (GetTasks hdr now) d = verify_token (get_tasks L) hdr now d"
| "handle L (CreateTask hdr now data now1 now2 new_id) d =
     verify_token (create_task L data now1 now2 new_id) hdr now d"
| "handle L (UpdateTask hdr now task_id data now') d =
     verify_token (update_task L task_id data now') hdr now d"
| "handle L (DeleteTask hdr now task_id) d = verify_token (delete_task L task_id) hdr now d"

fun run :: "lib \<Rightarrow> request list \<Rightarrow> db \<Rightarrow> db" where
  "run L [] d = d"
| "run L (r # rs) d = run L rs (snd (handle L r d))"


subsection \<open>Store invariants and tokens\<close>

text \<open>
  What the unique indexes of the database and the order of the statements in
  \<^verbatim>\<open>register\<close> and \<^verbatim>\<open>login\<close> maintain: user names, task ids and tokens are not
  repeated, and no user has two sessions.
\<close>

definition wf_db :: "db \<Rightarrow> bool" where
  "wf_db d \<longleftrightarrow>
     distinct (map username (users_collection d)) \<and>
     [] \<notin> set (map username (users_collection d)) \<and>
     distinct (map task_oid (tasks_collection d)) \<and>
     distinct (map token (sessions_collection d)) \<and>
     distinct (map session_user_id (sessions_collection d))"

text \<open>
  A client presents the token \<open>tok\<close> with the \<^verbatim>\<open>Authorization\<close> header \<open>h\<close> when the
  decorator accepts \<open>h\<close> as a value and looks \<open>tok\<close> up for it.
\<close>

definition presents :: "string \<Rightarrow> string \<Rightarrow> bool" where
  "presents h tok \<longleftrightarrow> h \<noteq> [] \<and> str_replace ''Bearer '' [] h = tok"

subsection \<open>A concrete run\<close>

text \<open>
  Library functions and requests on which the theorems below are evaluated: a tagging
  hash, times written in unary, and two task ids.
\<close>

definition test_lib :: lib where
  "test_lib =
     \<lparr>sha256_hexdigest = (\<lambda>s. ''sha256:'' @ s),
      isoformat = (\<lambda>n. replicate n (CHR ''1'')),
      ObjectId = (\<lambda>s. if s = ''a1'' then Some 1 else if s = ''a2'' then Some 2 else None),
      str_oid = (\<lambda>n. if n = 1 then ''a1'' else if n = 2 then ''a2'' else ''a3'')\<rparr>"

definition alice_logged_in :: "request list" where
  "alice_logged_in =
     [Register (Some ''alice'') (Some (JStr ''pw'')) (Some ''a@x.com'') 0 1,
      Login (Some ''alice'') (Some (JStr ''pw'')) ''t1'' 1]"

text \<open>
  Two request bodies, the task that the first one creates for \<open>alice\<close>, and runs in
  which \<open>alice\<close> has that task and \<open>bob\<close> is logged in as well.
\<close>

definition buy_milk :: dict where
  "buy_milk = [''title'' \<mapsto> JStr ''buy milk'']"

definition empty_title :: dict where
  "empty_title = [''title'' \<mapsto> JStr []]"

definition milk_task :: task where
  "milk_task =
     \<lparr>task_oid = 1, title = JStr ''buy milk'', description = JStr [],
      completed = JBool False, user_id = ''alice'', due_date = JNull, due_time = JNull,
      category = JStr ''general'', created_at = 3, updated_at = 4\<rparr>"

definition alice_has_task :: "request list" where
  "alice_has_task = alice_logged_in @ [CreateTask (Some ''Bearer t1'') 2 buy_milk 3 4 1]"


text \<open>A database with three tasks of \<open>alice\<close>, created at the times 1, 2 and 3, and one of \<open>bob\<close>.\<close>

definition task_at :: "nat \<Rightarrow> task" where
  "task_at n = milk_task\<lparr>task_oid := n, created_at := n, updated_at := n\<rparr>"

definition three_tasks :: db where
  "three_tasks =
     \<lparr>users_collection = [],
      tasks_collection = [task_at 1, task_at 2, milk_task\<lparr>task_oid := 4, user_id := ''bob''\<rparr>, task_at 3],
      sessions_collection = []\<rparr>"

section \<open>Properties of the collections and of the decorator\<close>

lemma find_one_None_iff: "find_one P xs = None \<longleftrightarrow> (\<forall>x\<in>set xs. \<not> P x)"
  by (auto simp: find_one_def find_None_iff)


lemma find_one_distinct:
  "distinct (map k xs) \<Longrightarrow> x \<in> set xs \<Longrightarrow> find_one (\<lambda>y. k y = k x) xs = Some x"
  by (induction xs) (auto simp: find_one_def rev_image_eqI)

lemma set_delete_one: "set (delete_one P xs) \<subseteq> set xs"
  by (induction xs) auto

lemma distinct_map_delete_one: "distinct (map k xs) \<Longrightarrow> distinct (map k (delete_one P xs))"
proof (induction xs)
  case Nil
  then show ?case by simp
next
  case (Cons x xs)
  then show ?case using set_delete_one [of P xs] by auto
qed

lemma distinct_map_delete_many: "distinct (map k xs) \<Longrightarrow> distinct (map k (delete_many P xs))"
  by (simp add: delete_many_def distinct_map_filter)

lemma set_delete_many: "set (delete_many P xs) = {x \<in> set xs. \<not> P x}"
  by (simp add: delete_many_def)

lemma map_update_one_key:
  "(\<And>x. k (f x) = k x) \<Longrightarrow> map k (update_one P f xs) = map k xs"
  by (induction xs) auto

lemma delete_one_key_distinct:
  "distinct (map k xs) \<Longrightarrow> v \<notin> set (map k (delete_one (\<lambda>y. k y = v) xs))"
proof (induction xs)
  case Nil
  then show ?case by simp
next
  case (Cons x xs)
  then show ?case by auto
qed

lemma wf_db_empty: "wf_db empty_db"
  by (simp add: wf_db_def empty_db_def)

lemma wf_db_verify_token:
  assumes "\<And>uid d. wf_db d \<Longrightarrow> wf_db (snd (f uid d))" and "wf_db d"
  shows "wf_db (snd (verify_token f hdr now d))"
  using assms
  by (auto simp: verify_token_def Let_def wf_db_def distinct_map_delete_one
      split: option.splits)

lemma wf_db_register: "wf_db d \<Longrightarrow> wf_db (snd (register L un pw em now nid d))"
  by (auto simp: register_def Let_def wf_db_def find_one_None_iff missing_def
      split: option.splits)

lemma wf_db_login: "wf_db d \<Longrightarrow> wf_db (snd (login L un pw tok now d))"
  by (auto simp: login_def Let_def wf_db_def distinct_map_delete_many set_delete_many
      split: option.splits)

lemma wf_db_verify: "wf_db d \<Longrightarrow> wf_db (snd (verify uid d))"
  by (simp add: verify_def)

lemma wf_db_logout: "wf_db d \<Longrightarrow> wf_db (snd (logout hdr uid d))"
  by (auto simp: logout_def Let_def wf_db_def distinct_map_delete_one split: option.splits)

lemma wf_db_get_tasks: "wf_db d \<Longrightarrow> wf_db (snd (get_tasks L uid d))"
  by (simp add: get_tasks_def Let_def)

lemma wf_db_create_task: "wf_db d \<Longrightarrow> wf_db (snd (create_task L data n1 n2 nid uid d))"
  by (auto simp: create_task_def Let_def wf_db_def)

lemma task_oid_set_fields: "task_oid (set_fields upd now t) = task_oid t"
  by (simp add: set_fields_def)

lemma wf_db_update_task: "wf_db d \<Longrightarrow> wf_db (snd (update_task L tid data now uid d))"
  by (auto simp: update_task_def Let_def wf_db_def map_update_one_key task_oid_set_fields
      split: option.splits)

lemma wf_db_delete_task: "wf_db d \<Longrightarrow> wf_db (snd (delete_task L tid uid d))"
  by (auto simp: delete_task_def Let_def wf_db_def distinct_map_delete_one split: option.splits)

lemma wf_db_handle: "wf_db d \<Longrightarrow> wf_db (snd (handle L r d))"
  by (cases r)
    (simp_all add: wf_db_register wf_db_login wf_db_verify_token wf_db_verify wf_db_logout
      wf_db_get_tasks wf_db_create_task wf_db_update_task wf_db_delete_task)

lemma wf_db_run: "wf_db d \<Longrightarrow> wf_db (run L rs d)"
  by (induction rs arbitrary: d) (simp_all add: wf_db_handle)

lemma verify_token_invalid:
  assumes "presents h tok" and "tok \<notin> set (map token (sessions_collection d))"
  shows "verify_token f (Some h) now d = (error_response ''Invalid token'' 401, d)"
proof -
  have "find_one (\<lambda>s. token s = tok) (sessions_collection d) = None"
    using assms(2) by (auto simp: find_one_None_iff)
  with assms(1) show ?thesis
    by (simp add: verify_token_def presents_def)
qed




lemma test_lib_simps:
  "sha256_hexdigest test_lib s = ''sha256:'' @ s"
  "isoformat test_lib n = replicate n (CHR ''1'')"
  "ObjectId test_lib s = (if s = ''a1'' then Some 1 else if s = ''a2'' then Some 2 else None)"
  "str_oid test_lib n = (if n = 1 then ''a1'' else if n = 2 then ''a2'' else ''a3'')"
  by (simp_all add: test_lib_def)

lemma run_alice_logged_in:
  "run test_lib alice_logged_in empty_db =
     \<lparr>users_collection = [\<lparr>user_oid = 1, username = ''alice'', email = ''a@x.com'',
         password = ''sha256:pw'', user_created_at = 0\<rparr>],
      tasks_collection = [],
      sessions_collection = [\<lparr>token = ''t1'', session_user_id = ''alice'', expires = 1 + hours_24\<rparr>]\<rparr>"
  by (simp add: alice_logged_in_def empty_db_def register_def login_def missing_def find_one_def
      delete_many_def falsy_def test_lib_simps Let_def)

lemma presents_t1: "presents ''Bearer t1'' ''t1''"
  by (simp add: presents_def)

lemma delete_one_key_remove1:
  "distinct (map k xs) \<Longrightarrow> x \<in> set xs \<Longrightarrow> delete_one (\<lambda>y. k y = k x) xs = remove1 x xs"
  by (induction xs) (auto simp: rev_image_eqI)

lemma key_notin_remove1:
  "distinct (map k xs) \<Longrightarrow> x \<in> set xs \<Longrightarrow> k x \<notin> set (map k (remove1 x xs))"
  by (induction xs) (auto simp: rev_image_eqI)

lemma verify_token_expired:
  assumes "presents h (token s)" and "s \<in> set (sessions_collection d)"
    and "distinct (map token (sessions_collection d))" and "expires s < now"
  shows "verify_token f (Some h) now d =
    (error_response ''Token expired'' 401,
     d\<lparr>sessions_collection := remove1 s (sessions_collection d)\<rparr>)"
proof -
  have "find_one (\<lambda>x. token x = token s) (sessions_collection d) = Some s"
    using assms(2,3) by (rule find_one_distinct [rotated])
  moreover have "delete_one (\<lambda>x. token x = token s) (sessions_collection d) =
      remove1 s (sessions_collection d)"
    using assms(3,2) by (rule delete_one_key_remove1)
  ultimately show ?thesis
    using assms(1,4) by (simp add: verify_token_def presents_def)
qed



lemma find_one_key_owned:
  assumes "distinct (map k xs)" and "x \<in> set xs" and "Q x"
  shows "find_one (\<lambda>y. k y = k x \<and> Q y) xs = Some x"
  using assms by (induction xs) (auto simp: find_one_def rev_image_eqI)

lemma map_replace_absent: "x \<notin> set xs \<Longrightarrow> map (\<lambda>y. if y = x then v else y) xs = xs"
  by (induction xs) auto

lemma update_one_key:
  "distinct (map k xs) \<Longrightarrow> x \<in> set xs \<Longrightarrow>
   update_one (\<lambda>y. k y = k x) f xs = map (\<lambda>y. if y = x then f x else y) xs"
proof (induction xs)
  case Nil
  then show ?case by simp
next
  case (Cons a xs)
  show ?case
  proof (cases "a = x")
    case True
    with Cons.prems have "x \<notin> set xs" by auto
    with True show ?thesis by (simp add: map_replace_absent)
  next
    case False
    with Cons.prems have "x \<in> set xs" "k a \<noteq> k x" by auto
    with Cons False show ?thesis by simp
  qed
qed

lemma find_one_updated:
  "distinct (map k xs) \<Longrightarrow> x \<in> set xs \<Longrightarrow> k (f x) = k x \<Longrightarrow>
   find_one (\<lambda>y. k y = k x) (map (\<lambda>y. if y = x then f x else y) xs) = Some (f x)"
  by (induction xs) (auto simp: find_one_def rev_image_eqI)

lemma set_sort_reverse: "set (sort_reverse k xs) = set xs"
  by (simp add: sort_reverse_def)





lemma insort_key_map:
  "insort_key k (f x) (map f xs) = map f (insort_key (\<lambda>y. k (f y)) x xs)"
  by (induction xs) simp_all

lemma sort_key_map: "sort_key k (map f xs) = map f (sort_key (\<lambda>y. k (f y)) xs)"
  by (induction xs) (simp_all add: insort_key_map)

lemma sort_reverse_map: "sort_reverse k (map f xs) = map f (sort_reverse (\<lambda>y. k (f y)) xs)"
  by (simp add: sort_reverse_def sort_key_map rev_map)

lemma mset_sort_reverse: "mset (sort_reverse k xs) = mset xs"
  by (simp add: sort_reverse_def)

lemma sorted_sort_reverse: "sorted_wrt (\<lambda>a b. k b \<le> k a) (sort_reverse k xs)"
proof -
  have "sorted_wrt (\<lambda>a b. k a \<le> k b) (sort_key k (rev xs))"
    using sorted_sort_key [of k "rev xs"] by (simp add: sorted_map)
  then show ?thesis
    by (simp add: sort_reverse_def sorted_wrt_rev)
qed

lemma insort_key_greatest:
  "\<forall>x \<in> set xs. k x < k y \<Longrightarrow> insort_key k y xs = xs @ [y]"
  by (induction xs) auto

lemma sort_key_descending:
  "sorted_wrt (\<lambda>a b. k b < k a) ys \<Longrightarrow> sort_key k ys = rev ys"
  by (induction ys) (simp_all add: insort_key_greatest)

lemma sort_reverse_ascending:
  assumes "sorted_wrt (\<lambda>a b. k a < k b) xs"
  shows "sort_reverse k xs = rev xs"
proof -
  have "sorted_wrt (\<lambda>a b. k b < k a) (rev xs)"
    using assms by (simp add: sorted_wrt_rev)
  then have "sort_key k (rev xs) = xs"
    using sort_key_descending [of k "rev xs"] by simp
  then show ?thesis
    by (simp add: sort_reverse_def)
qed

lemma get_created_at_task_json: "get_created_at (task_json L t) = isoformat L (created_at t)"
  by (simp add: get_created_at_def task_json_def)

lemma get_tasks_sorted:
  "get_tasks L uid d =
     ((JArr (map (task_json L)
        (sort_reverse (\<lambda>t. isoformat L (created_at t))
           (filter (\<lambda>t. user_id t = uid) (tasks_collection d)))), 200), d)"
  by (simp add: get_tasks_def Let_def sort_reverse_map get_created_at_task_json)

lemmas route_defs =
  register_def login_def verify_token_def create_task_def missing_def find_one_def
  delete_many_def falsy_def dict_get_def Let_def

lemma run_append: "run L (rs @ rs') d = run L rs' (run L rs d)"
  by (induction rs arbitrary: d) simp_all

lemma run_alice_has_task:
  "run test_lib alice_has_task empty_db =
     \<lparr>users_collection = [\<lparr>user_oid = 1, username = ''alice'', email = ''a@x.com'',
         password = ''sha256:pw'', user_created_at = 0\<rparr>],
      tasks_collection = [milk_task],
      sessions_collection = [\<lparr>token = ''t1'', session_user_id = ''alice'', expires = 1 + hours_24\<rparr>]\<rparr>"
  by (simp add: alice_has_task_def run_append run_alice_logged_in route_defs buy_milk_def
      milk_task_def hours_24_def)


lemma isoformat_test_lib_less:
  "m < n \<Longrightarrow> isoformat test_lib m < isoformat test_lib n"
proof (induction m arbitrary: n)
  case 0
  then show ?case by (cases n) (simp_all add: test_lib_simps)
next
  case (Suc m)
  then show ?case by (cases n) (simp_all add: test_lib_simps)
qed

lemma create_task_title_truthy:
  assumes "\<forall>t \<in> set (tasks_collection d). truthy (title t)"
  shows "\<forall>t \<in> set (tasks_collection (snd (create_task L data now1 now2 new_id uid d))).
           truthy (title t)"
  using assms by (auto simp: create_task_def Let_def)

lemma str_replace_no_space:
  "CHR '' '' \<notin> set t \<Longrightarrow> str_replace ''Bearer '' [] t = t"
proof (induction t)
  case Nil
  then show ?case by simp
next
  case (Cons c cs)
  have ne: "take (length ''Bearer '') (c # cs) \<noteq> ''Bearer ''"
  proof
    assume "take (length ''Bearer '') (c # cs) = ''Bearer ''"
    then have "CHR '' '' \<in> set (take (length ''Bearer '') (c # cs))" by simp
    then have "CHR '' '' \<in> set (c # cs)" by (rule in_set_takeD)
    with Cons.prems show False by simp
  qed
  have "str_replace ''Bearer '' [] (c # cs) = c # str_replace ''Bearer '' [] cs"
    by (simp only: str_replace.simps ne if_False list.distinct)
  with Cons show ?case by simp
qed

lemma bearer_prefix_removed:
  "CHR '' '' \<notin> set t \<Longrightarrow> str_replace ''Bearer '' [] (''Bearer '' @ t) = t"
proof -
  assume t: "CHR '' '' \<notin> set t"
  have "take (length ''Bearer '') (''Bearer '' @ t) = ''Bearer ''"
    "drop (length ''Bearer '') (''Bearer '' @ t) = t"
    by simp_all
  then have "str_replace ''Bearer '' [] (''Bearer '' @ t) = str_replace ''Bearer '' [] t"
    by simp
  also have "\<dots> = t"
    using t by (rule str_replace_no_space)
  finally show ?thesis .
qed













section \<open>Sessions\<close>



text \<open>
  Claim C3 (lazy expiry).  In every reachable state, presenting the token of a session
  whose \<^verbatim>\<open>expires\<close> is earlier than the clock is answered with \<^verbatim>\<open>Token expired\<close> and
  removes that session; presenting the same token again is answered with
  \<^verbatim>\<open>Invalid token\<close>.
\<close>

theorem lazy_expiry_eviction:
  assumes "d = run L reqs empty_db"
    and "s \<in> set (sessions_collection d)"
    and "expires s < now"
    and "presents h (token s)"
    and "d' = d\<lparr>sessions_collection := remove1 s (sessions_collection d)\<rparr>"
  shows "verify_token f (Some h) now d = (error_response ''Token expired'' 401, d') \<and>
         s \<notin> set (sessions_collection d') \<and>
         verify_token g (Some h) now' d' = (error_response ''Invalid token'' 401, d')"
proof -
  have "wf_db d"
    using assms(1) by (simp add: wf_db_run wf_db_empty)
  then have toks: "distinct (map token (sessions_collection d))"
    by (simp add: wf_db_def)
  have "verify_token f (Some h) now d = (error_response ''Token expired'' 401, d')"
    unfolding assms(5) using assms(4,2) toks assms(3) by (rule verify_token_expired)
  moreover have gone: "token s \<notin> set (map token (sessions_collection d'))"
    using key_notin_remove1 [OF toks assms(2)] by (simp add: assms(5))
  then have "s \<notin> set (sessions_collection d')"
    by auto
  moreover have "verify_token g (Some h) now' d' = (error_response ''Invalid token'' 401, d')"
    using assms(4) gone by (rule verify_token_invalid)
  ultimately show ?thesis by simp
qed

theorem lazy_expiry_eviction_witness:
  "verify_token verify (Some ''Bearer t1'') (2 + hours_24) (run test_lib alice_logged_in empty_db) =
     (error_response ''Token expired'' 401,
      (run test_lib alice_logged_in empty_db)\<lparr>sessions_collection := []\<rparr>) \<and>
   verify_token verify (Some ''Bearer t1'') (3 + hours_24)
      ((run test_lib alice_logged_in empty_db)\<lparr>sessions_collection := []\<rparr>) =
     (error_response ''Invalid token'' 401,
      (run test_lib alice_logged_in empty_db)\<lparr>sessions_collection := []\<rparr>)"
proof -
  let ?d = "run test_lib alice_logged_in empty_db"
  let ?s = "\<lparr>token = ''t1'', session_user_id = ''alice'', expires = 1 + hours_24\<rparr>"
  have s: "?s \<in> set (sessions_collection ?d)"
    by (simp add: run_alice_logged_in)
  have e: "expires ?s < 2 + hours_24"
    by simp
  have p: "presents ''Bearer t1'' (token ?s)"
    by (simp add: presents_def)
  have d': "?d\<lparr>sessions_collection := []\<rparr> =
      ?d\<lparr>sessions_collection := remove1 ?s (sessions_collection ?d)\<rparr>"
    by (simp add: run_alice_logged_in)
  from lazy_expiry_eviction [OF refl s e p d', of verify verify "3 + hours_24"]
  show ?thesis
    by simp
qed




text \<open>
  Claim C9 (bearer prefix).  The decorator removes every occurrence of \<^verbatim>\<open>Bearer \<close>
  from the header, not only a prefix.  For the header that is \<^verbatim>\<open>Bearer \<close> followed by the
  token \<^verbatim>\<open>Bearer t1\<close> it looks up \<^verbatim>\<open>t1\<close> and lets the request through as the user of
  that session, and a header without the prefix, \<^verbatim>\<open>tBearer 1\<close>, is not used unchanged: it
  is looked up as \<^verbatim>\<open>t1\<close> as well.
\<close>

theorem bearer_replaced_everywhere:
  "str_replace ''Bearer '' [] (''Bearer '' @ ''Bearer t1'') = ''t1'' \<and>
   verify_token verify (Some (''Bearer '' @ ''Bearer t1'')) 2
       (run test_lib alice_logged_in empty_db) =
     ((JObj [(''valid'', JBool True), (''user_id'', JStr ''alice'')], 200),
      run test_lib alice_logged_in empty_db) \<and>
   str_replace ''Bearer '' [] ''tBearer 1'' = ''t1'' \<and>
   verify_token verify (Some ''tBearer 1'') 2 (run test_lib alice_logged_in empty_db) =
     ((JObj [(''valid'', JBool True), (''user_id'', JStr ''alice'')], 200),
      run test_lib alice_logged_in empty_db)"
  by (simp add: run_alice_logged_in verify_token_def find_one_def verify_def hours_24_def)



section \<open>Tasks\<close>



text \<open>
  Claim C7 (frame of update).  In every reachable state, updating a task of the caller
  answers 200 with the task as stored and changes that task only.  Its id, owner and
  creation time stay, \<^verbatim>\<open>updated_at\<close> becomes the time of the update, each field that is
  absent from the patch keeps its value, and with the empty patch nothing but
  \<^verbatim>\<open>updated_at\<close> changes.
\<close>

theorem update_frame:
  assumes "d = run L reqs empty_db"
    and "t \<in> set (tasks_collection d)"
    and "user_id t = uid"
    and "ObjectId L task_id = Some (task_oid t)"
  shows "\<exists>t'. update_task L task_id data now uid d =
           ((task_json L t', 200),
            d\<lparr>tasks_collection := map (\<lambda>x. if x = t then t' else x) (tasks_collection d)\<rparr>) \<and>
         task_oid t' = task_oid t \<and> user_id t' = user_id t \<and>
         created_at t' = created_at t \<and> updated_at t' = now \<and>
         (data ''title'' = None \<longrightarrow> title t' = title t) \<and>
         (data ''description'' = None \<longrightarrow> description t' = description t) \<and>
         (data ''completed'' = None \<longrightarrow> completed t' = completed t) \<and>
         (data ''due_date'' = None \<longrightarrow> due_date t' = due_date t) \<and>
         (data ''due_time'' = None \<longrightarrow> due_time t' = due_time t) \<and>
         (data ''category'' = None \<longrightarrow> category t' = category t) \<and>
         (data = Map.empty \<longrightarrow> t' = t\<lparr>updated_at := now\<rparr>)"
proof -
  let ?f = "set_fields (update_data data) now"
  have wf: "wf_db d"
    using assms(1) by (simp add: wf_db_run wf_db_empty)
  then have ids: "distinct (map task_oid (tasks_collection d))"
    by (simp add: wf_db_def)
  have found: "find_one (\<lambda>y. task_oid y = task_oid t \<and> user_id y = uid) (tasks_collection d) = Some t"
    using ids assms(2,3) by (rule find_one_key_owned)
  have upd: "update_one (\<lambda>y. task_oid y = task_oid t) ?f (tasks_collection d) =
      map (\<lambda>y. if y = t then ?f t else y) (tasks_collection d)"
    using ids assms(2) by (rule update_one_key)
  have again: "find_one (\<lambda>y. task_oid y = task_oid t)
      (map (\<lambda>y. if y = t then ?f t else y) (tasks_collection d)) = Some (?f t)"
    using ids assms(2) by (rule find_one_updated) (simp add: task_oid_set_fields)
  have res: "update_task L task_id data now uid d =
      ((task_json L (?f t), 200),
       d\<lparr>tasks_collection := map (\<lambda>x. if x = t then ?f t else x) (tasks_collection d)\<rparr>)"
    using assms(4) found upd again by (simp add: update_task_def Let_def)
  have frame: "task_oid (?f t) = task_oid t" "user_id (?f t) = user_id t"
    "created_at (?f t) = created_at t" "updated_at (?f t) = now"
    by (simp_all add: set_fields_def)
  have absent:
    "data ''title'' = None \<longrightarrow> title (?f t) = title t"
    "data ''description'' = None \<longrightarrow> description (?f t) = description t"
    "data ''completed'' = None \<longrightarrow> completed (?f t) = completed t"
    "data ''due_date'' = None \<longrightarrow> due_date (?f t) = due_date t"
    "data ''due_time'' = None \<longrightarrow> due_time (?f t) = due_time t"
    "data ''category'' = None \<longrightarrow> category (?f t) = category t"
    by (simp_all add: set_fields_def update_data_def dict_get_def)
  have empty: "data = Map.empty \<longrightarrow> ?f t = t\<lparr>updated_at := now\<rparr>"
    by (simp add: set_fields_def update_data_def dict_get_def)
  show ?thesis
    by (intro exI [of _ "?f t"] conjI) (rule res frame absent empty)+
qed

theorem update_frame_witness:
  "update_task test_lib ''a1'' Map.empty 9 ''alice'' (run test_lib alice_has_task empty_db) =
     ((task_json test_lib (milk_task\<lparr>updated_at := 9\<rparr>), 200),
      (run test_lib alice_has_task empty_db)\<lparr>tasks_collection := [milk_task\<lparr>updated_at := 9\<rparr>]\<rparr>)"
proof -
  let ?d = "run test_lib alice_has_task empty_db"
  have t: "milk_task \<in> set (tasks_collection ?d)"
    by (simp add: run_alice_has_task)
  have own: "user_id milk_task = ''alice''"
    by (simp add: milk_task_def)
  have oid: "ObjectId test_lib ''a1'' = Some (task_oid milk_task)"
    by (simp add: test_lib_simps milk_task_def)
  from update_frame [OF refl t own oid, of Map.empty 9]
  obtain t' where r: "update_task test_lib ''a1'' Map.empty 9 ''alice'' ?d =
      ((task_json test_lib t', 200),
       ?d\<lparr>tasks_collection := map (\<lambda>x. if x = milk_task then t' else x) (tasks_collection ?d)\<rparr>)"
    and e: "t' = milk_task\<lparr>updated_at := 9\<rparr>"
    by blast
  have "map (\<lambda>x. if x = milk_task then t' else x) (tasks_collection ?d) = [t']"
    by (simp add: run_alice_has_task)
  with r e show ?thesis
    by simp
qed

text \<open>
  Claim C8 (order of the list).  Where \<^verbatim>\<open>isoformat\<close> keeps the order of the creation
  times of a user's tasks, the list is a permutation of exactly the tasks of that user,
  in descending order of creation time.  Tasks stored in ascending order of creation time,
  such as three created at \<open>t1 < t2 < t3\<close>, come back reversed, and a user without tasks
  gets the empty list.
\<close>

theorem list_ordering:
  assumes "owned = filter (\<lambda>t. user_id t = uid) (tasks_collection d)"
    and "\<forall>a \<in> set owned. \<forall>b \<in> set owned.
           created_at a < created_at b \<longrightarrow>
           isoformat L (created_at a) < isoformat L (created_at b)"
  shows "\<exists>ts. get_tasks L uid d = ((JArr (map (task_json L) ts), 200), d) \<and>
          mset ts = mset owned \<and>
          sorted_wrt (\<lambda>a b. created_at b \<le> created_at a) ts \<and>
          (sorted_wrt (\<lambda>a b. created_at a < created_at b) owned \<longrightarrow> ts = rev owned) \<and>
          (owned = [] \<longrightarrow> ts = [])"
proof -
  let ?k = "\<lambda>t. isoformat L (created_at t)"
  let ?ts = "sort_reverse ?k owned"
  have res: "get_tasks L uid d = ((JArr (map (task_json L) ?ts), 200), d)"
    by (simp add: get_tasks_sorted assms(1))
  have perm: "mset ?ts = mset owned"
    by (rule mset_sort_reverse)
  have "sorted_wrt (\<lambda>a b. ?k b \<le> ?k a) ?ts"
    by (rule sorted_sort_reverse)
  moreover have "created_at b \<le> created_at a"
    if "a \<in> set ?ts" "b \<in> set ?ts" "?k b \<le> ?k a" for a b
  proof (rule ccontr)
    assume "\<not> created_at b \<le> created_at a"
    then have "created_at a < created_at b" by simp
    moreover have "a \<in> set owned" "b \<in> set owned"
      using that(1,2) by (simp_all add: set_sort_reverse)
    ultimately have "?k a < ?k b"
      using assms(2) by blast
    with that(3) show False by simp
  qed
  ultimately have desc: "sorted_wrt (\<lambda>a b. created_at b \<le> created_at a) ?ts"
    by (rule sorted_wrt_mono_rel [rotated]) blast
  have asc: "?ts = rev owned" if "sorted_wrt (\<lambda>a b. created_at a < created_at b) owned"
  proof -
    have "sorted_wrt (\<lambda>a b. ?k a < ?k b) owned"
      using that
    proof (rule sorted_wrt_mono_rel [rotated])
      fix a b
      assume "a \<in> set owned" "b \<in> set owned" "created_at a < created_at b"
      with assms(2) show "?k a < ?k b" by blast
    qed
    then show ?thesis
      by (rule sort_reverse_ascending)
  qed
  have none: "?ts = []" if "owned = []"
    using that by (simp add: sort_reverse_def)
  from res perm desc asc none show ?thesis
    by (intro exI [of _ ?ts] conjI impI)
qed

theorem list_ordering_witness:
  "get_tasks test_lib ''alice'' three_tasks =
     ((JArr [task_json test_lib (task_at 3), task_json test_lib (task_at 2),
             task_json test_lib (task_at 1)], 200), three_tasks)"
proof -
  let ?owned = "[task_at 1, task_at 2, task_at 3]"
  have owned: "?owned = filter (\<lambda>t. user_id t = ''alice'') (tasks_collection three_tasks)"
    by (simp add: three_tasks_def task_at_def milk_task_def)
  have iso: "\<forall>a \<in> set ?owned. \<forall>b \<in> set ?owned. created_at a < created_at b \<longrightarrow>
      isoformat test_lib (created_at a) < isoformat test_lib (created_at b)"
    by (simp add: isoformat_test_lib_less)
  have asc: "sorted_wrt (\<lambda>a b. created_at a < created_at b) ?owned"
    by (simp add: task_at_def)
  from list_ordering [OF owned iso] asc show ?thesis
    by auto
qed


text \<open>
  Claim C5 (defaults of create), where the code differs.  \<^verbatim>\<open>create_task\<close> reads the clock
  twice, so the stored \<^verbatim>\<open>created_at\<close> and \<^verbatim>\<open>updated_at\<close> differ when the two readings
  differ.
\<close>

theorem create_task_times_counterexample:
  "created_at (last (tasks_collection (snd
      (create_task test_lib buy_milk 3 4 1 ''alice'' empty_db)))) \<noteq>
   updated_at (last (tasks_collection (snd
      (create_task test_lib buy_milk 3 4 1 ''alice'' empty_db))))"
  by (simp add: create_task_def dict_get_def buy_milk_def empty_db_def Let_def)

text \<open>
  Claim C5 as amended.  A body that holds only a title that Python takes as true, with an
  \<^verbatim>\<open>_id\<close> that is new, stores and returns a task with \<^verbatim>\<open>completed\<close> false, an empty
  description, the category \<^verbatim>\<open>general\<close>, no due date or time, \<^verbatim>\<open>created_at\<close> the first
  reading of the clock and \<^verbatim>\<open>updated_at\<close> the second; the two are equal when the readings
  are.  A body without a title or with the empty title is answered with
  \<^verbatim>\<open>Title is required\<close>, 400, and nothing is stored.
\<close>

theorem create_defaults:
  "(data ''title'' = Some v \<and> truthy v \<and> (\<forall>k. k \<noteq> ''title'' \<longrightarrow> data k = None) \<and>
    new_id \<notin> set (map task_oid (tasks_collection d)) \<and>
    t = \<lparr>task_oid = new_id, title = v, description = JStr [], completed = JBool False,
         user_id = uid, due_date = JNull, due_time = JNull, category = JStr ''general'',
         created_at = now1, updated_at = now2\<rparr> \<longrightarrow>
    create_task L data now1 now2 new_id uid d =
      ((task_json L t, 201), d\<lparr>tasks_collection := tasks_collection d @ [t]\<rparr>) \<and>
    (now1 = now2 \<longrightarrow> created_at t = updated_at t)) \<and>
   (data ''title'' = None \<or> data ''title'' = Some (JStr []) \<longrightarrow>
    create_task L data now1 now2 new_id uid d = (error_response ''Title is required'' 400, d))"
proof -
  have stored: "create_task L data now1 now2 new_id uid d =
      ((task_json L t, 201), d\<lparr>tasks_collection := tasks_collection d @ [t]\<rparr>)"
    if title: "data ''title'' = Some v" "truthy v"
      and rest: "\<forall>k. k \<noteq> ''title'' \<longrightarrow> data k = None"
      and fresh: "new_id \<notin> set (map task_oid (tasks_collection d))"
      and t: "t = \<lparr>task_oid = new_id, title = v, description = JStr [], completed = JBool False,
         user_id = uid, due_date = JNull, due_time = JNull, category = JStr ''general'',
         created_at = now1, updated_at = now2\<rparr>"
  proof -
    have defaults: "dict_get data ''title'' JNull = v"
      "dict_get data ''description'' (JStr []) = JStr []"
      "dict_get data ''due_date'' JNull = JNull"
      "dict_get data ''due_time'' JNull = JNull"
      "dict_get data ''category'' (JStr ''general'') = JStr ''general''"
      using title(1) rest by (simp_all add: dict_get_def)
    from title(2) fresh show ?thesis
      by (simp add: create_task_def Let_def defaults t)
  qed
  have times: "now1 = now2 \<longrightarrow> created_at t = updated_at t"
    if "t = \<lparr>task_oid = new_id, title = v, description = JStr [], completed = JBool False,
         user_id = uid, due_date = JNull, due_time = JNull, category = JStr ''general'',
         created_at = now1, updated_at = now2\<rparr>"
    using that by simp
  have rejected: "create_task L data now1 now2 new_id uid d =
      (error_response ''Title is required'' 400, d)"
    if "data ''title'' = None \<or> data ''title'' = Some (JStr [])"
  proof -
    from that have "\<not> truthy (dict_get data ''title'' JNull)"
      by (auto simp: dict_get_def)
    then show ?thesis
      by (simp add: create_task_def Let_def)
  qed
  from stored times rejected show ?thesis
    by blast
qed

theorem create_defaults_witness:
  "create_task test_lib buy_milk 3 4 1 ''alice'' empty_db =
     ((task_json test_lib milk_task, 201), empty_db\<lparr>tasks_collection := [milk_task]\<rparr>) \<and>
   create_task test_lib Map.empty 3 4 1 ''alice'' empty_db =
     (error_response ''Title is required'' 400, empty_db)"
proof -
  have ok: "buy_milk ''title'' = Some (JStr ''buy milk'') \<and> truthy (JStr ''buy milk'') \<and>
      (\<forall>k. k \<noteq> ''title'' \<longrightarrow> buy_milk k = None) \<and>
      1 \<notin> set (map task_oid (tasks_collection empty_db)) \<and>
      milk_task = \<lparr>task_oid = 1, title = JStr ''buy milk'', description = JStr [],
         completed = JBool False, user_id = ''alice'', due_date = JNull, due_time = JNull,
         category = JStr ''general'', created_at = 3, updated_at = 4\<rparr>"
    by (simp add: buy_milk_def empty_db_def milk_task_def)
  have none: "Map.empty ''title'' = (None :: json option)"
    by simp
  have e: "tasks_collection empty_db @ [milk_task] = [milk_task]"
    by (simp add: empty_db_def)
  from create_defaults [of buy_milk "JStr ''buy milk''" 1 empty_db milk_task "''alice''" 3 4 test_lib] ok
  have "create_task test_lib buy_milk 3 4 1 ''alice'' empty_db =
      ((task_json test_lib milk_task, 201),
       empty_db\<lparr>tasks_collection := tasks_collection empty_db @ [milk_task]\<rparr>)"
    by blast
  moreover from create_defaults [of Map.empty _ 1 empty_db _ "''alice''" 3 4 test_lib] none
  have "create_task test_lib Map.empty 3 4 1 ''alice'' empty_db =
      (error_response ''Title is required'' 400, empty_db)"
    by blast
  ultimately show ?thesis
    by (simp add: e)
qed

text \<open>
  Claim C6 (non-empty title).  \<^verbatim>\<open>update_task\<close> copies the title of the patch without the
  test that \<^verbatim>\<open>create_task\<close> makes: the patch with the empty title is answered with 200
  and leaves the stored task with an empty title.
\<close>

theorem update_task_empties_title:
  "handle test_lib (UpdateTask (Some ''Bearer t1'') 5 ''a1'' empty_title 6)
     (run test_lib alice_has_task empty_db) =
     ((task_json test_lib (milk_task\<lparr>title := JStr [], updated_at := 6\<rparr>), 200),
      (run test_lib alice_has_task empty_db)
        \<lparr>tasks_collection := [milk_task\<lparr>title := JStr [], updated_at := 6\<rparr>]\<rparr>) \<and>
   \<not> truthy (title (milk_task\<lparr>title := JStr [], updated_at := 6\<rparr>))"
  by (simp add: run_alice_has_task verify_token_def update_task_def find_one_def Let_def
      test_lib_simps milk_task_def set_fields_def update_data_def dict_get_def empty_title_def
      hours_24_def)

end
